theory Spec2Isabelle
  imports Main "HOL-Library.Word"
begin

section \<open>JavaScript values used by the service\<close>

text \<open>
  A JavaScript string is a sequence of UTF-16 code units: \<open>length\<close>, \<open>slice\<close>,
  \<open>endsWith\<close> and \<open>trim\<close> all count and compare code units. An uploaded file is a
  sequence of bytes.
\<close>

type_synonym code_unit = "16 word"

type_synonym js_string = "code_unit list"

type_synonym bytes = "8 word list"

text \<open>An ASCII string literal of the source, as code units.\<close>

definition js :: "string \<Rightarrow> js_string" where
  "js s = map of_char s"

text \<open>
  The values that \<open>c.json\<close> serialises and that \<open>generateObject\<close> returns: an object is
  the list of its properties in insertion order.
\<close>

datatype json =
    JNull
  | JBool bool
  | JNum int
  | JStr js_string
  | JArr "json list"
  | JObj "(js_string \<times> json) list"

text \<open>
  Anything can be thrown in JavaScript. The handler's \<open>catch\<close> block looks at one thing
  only, whether the value is an instance of \<open>Error\<close>: \<open>ErrorInstance m\<close> is such an
  instance with \<open>message\<close> property \<open>m\<close>, and \<open>NonError d\<close> is any other thrown value,
  \<open>d\<close> being its rendering as text.
\<close>

datatype thrown = ErrorInstance js_string | NonError js_string

subsection \<open>String built-ins\<close>

text \<open>
  \<open>String.prototype.toLowerCase\<close>, exact on the ASCII range (\<open>A\<close>..\<open>Z\<close> become
  \<open>a\<close>..\<open>z\<close>); code units outside that range are returned as they are. In the full
  Unicode mapping no other character becomes \<open>.\<close>, \<open>p\<close>, \<open>d\<close> or \<open>f\<close>, the only code
  units the handler compares the result with.
\<close>

definition lower_unit :: "code_unit \<Rightarrow> code_unit" where
  "lower_unit c = (if 0x41 \<le> c \<and> c \<le> 0x5A then c + 0x20 else c)"

definition toLowerCase :: "js_string \<Rightarrow> js_string" where
  "toLowerCase s = map lower_unit s"

text \<open>\<open>s.endsWith(t)\<close>: false when \<open>t\<close> is longer than \<open>s\<close>.\<close>

definition endsWith :: "js_string \<Rightarrow> js_string \<Rightarrow> bool" where
  "endsWith s t \<longleftrightarrow> length t \<le> length s \<and> drop (length s - length t) s = t"

text \<open>
  The code units removed by \<open>String.prototype.trim\<close>: the WhiteSpace and LineTerminator
  productions of ECMAScript (tab, vertical tab, form feed, space, no-break space, the
  byte order mark, the Unicode space separators, line feed, carriage return, line and
  paragraph separator). All of them are single code units.
\<close>

definition isWhiteSpace :: "code_unit \<Rightarrow> bool" where
  "isWhiteSpace c \<longleftrightarrow>
     c = 0x09 \<or> c = 0x0A \<or> c = 0x0B \<or> c = 0x0C \<or> c = 0x0D \<or> c = 0x20 \<or> c = 0xA0
     \<or> c = 0x1680 \<or> (0x2000 \<le> c \<and> c \<le> 0x200A) \<or> c = 0x2028 \<or> c = 0x2029
     \<or> c = 0x202F \<or> c = 0x205F \<or> c = 0x3000 \<or> c = 0xFEFF"

definition trim :: "js_string \<Rightarrow> js_string" where
  "trim s = rev (dropWhile isWhiteSpace (rev (dropWhile isWhiteSpace s)))"

text \<open>
  \<open>s.slice(start, stop)\<close>: a negative index counts from the end, both indices are clamped
  to the string, and an empty string results when the range is empty.
\<close>

definition slice :: "js_string \<Rightarrow> int \<Rightarrow> int \<Rightarrow> js_string" where
  "slice s start stop =
     (let len = int (length s);
          lo = (if start < 0 then max (len + start) 0 else min start len);
          hi = (if stop < 0 then max (len + stop) 0 else min stop len)
      in take (nat (hi - lo)) (drop (nat lo) s))"

text \<open>\<open>s.includes(t)\<close>: \<open>t\<close> occurs in \<open>s\<close> as a contiguous run of code units.\<close>

fun js_includes :: "js_string \<Rightarrow> js_string \<Rightarrow> bool" where
  "js_includes [] t \<longleftrightarrow> t = []"
| "js_includes (x # xs) t \<longleftrightarrow> take (length t) (x # xs) = t \<or> js_includes xs t"

text \<open>Reading a property of a value: \<open>undefined\<close> (here \<open>None\<close>) when there is none.\<close>

definition getProperty :: "json \<Rightarrow> js_string \<Rightarrow> json option" where
  "getProperty v k = (case v of JObj kvs \<Rightarrow> map_of kvs k | _ \<Rightarrow> None)"

section \<open>The metadata schema (schema.ts)\<close>

text \<open>
  The Zod combinators that \<open>documentMetadataSchema\<close> is built from. \<open>ZDescribe\<close> is
  \<open>.describe(text)\<close>, which attaches a description and accepts what its argument accepts.
\<close>

datatype zod =
    ZString
  | ZNullable zod
  | ZArray zod
  | ZEnum "js_string list"
  | ZObject "(js_string \<times> zod) list"
  | ZDescribe zod string

text \<open>
  What a schema accepts. An object schema requires each of its keys to be present with
  an accepted value (none of the keys here is optional).
\<close>

fun validates :: "zod \<Rightarrow> json \<Rightarrow> bool" where
  "validates ZString v = (case v of JStr _ \<Rightarrow> True | _ \<Rightarrow> False)"
| "validates (ZNullable s) v = (v = JNull \<or> validates s v)"
| "validates (ZArray s) v = (case v of JArr xs \<Rightarrow> list_all (validates s) xs | _ \<Rightarrow> False)"
| "validates (ZEnum vs) v = (case v of JStr x \<Rightarrow> x \<in> set vs | _ \<Rightarrow> False)"
| "validates (ZObject shape) v =
     (case v of
        JObj kvs \<Rightarrow>
          (\<forall>(k, s) \<in> set shape.
             case map_of kvs k of None \<Rightarrow> False | Some x \<Rightarrow> validates s x)
      | _ \<Rightarrow> False)"
| "validates (ZDescribe s d) v = validates s v"

definition documentTypes :: "js_string list" where
  "documentTypes =
     [js ''report'', js ''article'', js ''letter'', js ''contract'', js ''manual'',
      js ''presentation'', js ''academic_paper'', js ''invoice'', js ''resume'',
      js ''other'']"

definition documentMetadataSchema :: zod where
  "documentMetadataSchema =
     ZObject
       [(js ''title'',
           ZDescribe ZString
             ''The title of the document. If not explicitly stated, infer from content.''),
        (js ''author'',
           ZDescribe (ZNullable ZString)
             ''The author or authors of the document. Return null if not found.''),
        (js ''summary'',
           ZDescribe ZString
             ''A 2-3 sentence summary of the document main content and purpose.''),
        (js ''topics'',
           ZDescribe (ZArray ZString)
             ''3-5 main topics or themes discussed in the document.''),
        (js ''keywords'',
           ZDescribe (ZArray ZString)
             ''5-10 important keywords or key phrases from the document.''),
        (js ''documentType'',
           ZDescribe (ZEnum documentTypes) ''The type or category of document.'')]"

section \<open>The request, the collaborators and the response (index.ts)\<close>

text \<open>
  A \<open>File\<close> of the parsed form: its \<open>name\<close> property (the handler reads it through
  optional chaining, so it may be missing) and the bytes that \<open>arrayBuffer()\<close> yields.
\<close>

record js_file =
  name :: "js_string option"
  arrayBuffer :: bytes

text \<open>A field of the parsed multipart body is a plain string or a file.\<close>

datatype form_value = FormString js_string | FormFile js_file

type_synonym form_data = "js_string \<rightharpoonup> form_value"

text \<open>
  The Hono context \<open>c\<close>, as far as the handlers read it: what \<open>c.req.parseBody()\<close>
  resolves to, or the value it rejects with.
\<close>

record hono_context =
  parseBody :: "thrown + form_data"

text \<open>
  What \<open>pdf(buffer)\<close> resolves to: \<open>pdfText\<close> is its \<open>text\<close> property and \<open>numpages\<close>
  its page count.
\<close>

record pdf_data =
  pdfText :: js_string
  numpages :: int

text \<open>The argument and the result of \<open>generateObject\<close>.\<close>

record gen_request =
  model :: js_string
  schema :: zod
  prompt :: js_string

record gen_result =
  object :: json

text \<open>
  The two external collaborators: the text extractor (\<open>pdf-parse\<close>) and the metadata
  generator (\<open>generateObject\<close> of the AI SDK). Each resolves (\<open>Inr\<close>) or throws (\<open>Inl\<close>).
\<close>

record collaborators =
  pdf :: "bytes \<Rightarrow> thrown + pdf_data"
  generateObject :: "gen_request \<Rightarrow> thrown + gen_result"

text \<open>
  The effects of a handler, in the order they happen: calls of the collaborators and
  writes to the console. \<open>LogStringified v\<close> is the text \<open>JSON.stringify(v, null, 2)\<close>.
\<close>

datatype log_arg = LogText js_string | LogStringified json | LogThrown thrown

datatype event =
    PdfCalled bytes
  | GenerateObjectCalled gen_request
  | ConsoleLog "log_arg list"
  | ConsoleError "log_arg list"

record response =
  status :: nat
  body :: json

text \<open>\<open>c.json(value, status)\<close>; the status is 200 where the source passes none.\<close>

definition c_json :: "json \<Rightarrow> nat \<Rightarrow> response" where
  "c_json v st = \<lparr>status = st, body = v\<rparr>"

subsection \<open>GET /\<close>

definition get_health :: "hono_context \<Rightarrow> response \<times> event list" where
  "get_health c =
     (c_json
        (JObj
           [(js ''status'', JStr (js ''ok'')),
            (js ''message'', JStr (js ''PDF Metadata Extraction API'')),
            (js ''endpoints'',
               JObj
                 [(js ''POST /extract'', JStr (js ''Upload a PDF to extract metadata'')),
                  (js ''GET /docs'', JStr (js ''Swagger UI documentation''))])])
        200,
      [])"

subsection \<open>POST /extract\<close>

definition missingFileMessage :: js_string where
  "missingFileMessage =
     js ''No PDF file uploaded. Please upload a file with field name ''
     @ [0x22] @ js ''file'' @ [0x22] @ js ''.''"

definition unsupportedTypeMessage :: js_string where
  "unsupportedTypeMessage = js ''Only PDF files are accepted. Please upload a .pdf file.''"

definition noTextMessage :: js_string where
  "noTextMessage =
     js ''Could not extract text from PDF. The file may be scanned or image-based.''"

text \<open>The template literal of the prompt around the (sliced) document text.\<close>

definition promptFor :: "js_string \<Rightarrow> js_string" where
  "promptFor t =
     js ''Analyze the following document text and extract metadata.'' @ [0x0A, 0x0A]
     @ js ''Document text:'' @ [0x0A]
     @ js ''---'' @ [0x0A]
     @ t @ [0x0A]
     @ js ''---''"

text \<open>The argument object of the \<open>generateObject\<close> call for an extracted text.\<close>

definition requestFor :: "js_string \<Rightarrow> gen_request" where
  "requestFor extractedText =
     \<lparr>model = js ''gpt-5-mini-2025-08-07'',
      schema = documentMetadataSchema,
      prompt = promptFor (slice extractedText 0 15000)\<rparr>"

text \<open>
  The \<open>catch\<close> block: \<open>before\<close> are the effects that happened before the throw.
\<close>

definition catchBlock :: "thrown \<Rightarrow> event list \<Rightarrow> response \<times> event list" where
  "catchBlock err before =
     (let message =
            (case err of
               ErrorInstance m \<Rightarrow> m
             | NonError d \<Rightarrow> js ''Unknown error occurred'')
      in (c_json (JObj [(js ''error'', JStr (js ''Failed to process PDF: '' @ message))]) 500,
          before @ [ConsoleError [LogText (js ''Error processing PDF:''), LogThrown err]]))"

text \<open>
  The handler of \<open>POST /extract\<close>. The test \<open>!file || typeof file === "string"\<close> holds
  for a missing field (\<open>undefined\<close>) and for every string, and fails for a \<open>File\<close>.
  \<open>file.name?.toLowerCase().endsWith(".pdf")\<close> is \<open>undefined\<close>, hence falsy, when the name
  is missing.
\<close>

definition post_extract :: "collaborators \<Rightarrow> hono_context \<Rightarrow> response \<times> event list" where
  "post_extract env c =
     (case parseBody c of
        Inl err \<Rightarrow> catchBlock err []
      | Inr form \<Rightarrow>
          (case form (js ''file'') of
             None \<Rightarrow> (c_json (JObj [(js ''error'', JStr missingFileMessage)]) 400, [])
           | Some (FormString s) \<Rightarrow>
               (c_json (JObj [(js ''error'', JStr missingFileMessage)]) 400, [])
           | Some (FormFile f) \<Rightarrow>
               if \<not> (case name f of
                         None \<Rightarrow> False
                       | Some n \<Rightarrow> endsWith (toLowerCase n) (js ''.pdf''))
               then (c_json (JObj [(js ''error'', JStr unsupportedTypeMessage)]) 400, [])
               else
                 let buffer = arrayBuffer f in
                 (case pdf env buffer of
                    Inl err \<Rightarrow> catchBlock err [PdfCalled buffer]
                  | Inr pdfData \<Rightarrow>
                      let extractedText = pdfText pdfData in
                      if extractedText = [] \<or> length (trim extractedText) = 0
                      then (c_json (JObj [(js ''error'', JStr noTextMessage)]) 422,
                            [PdfCalled buffer])
                      else
                        let request = requestFor extractedText;
                            called =
                              [PdfCalled buffer,
                               ConsoleLog [LogText (js ''Calling OpenAI...'')],
                               GenerateObjectCalled request]
                        in
                        (case generateObject env request of
                           Inl err \<Rightarrow> catchBlock err called
                         | Inr result \<Rightarrow>
                             (c_json
                                (JObj
                                   [(js ''success'', JBool True),
                                    (js ''metadata'', object result),
                                    (js ''rawText'', JStr extractedText),
                                    (js ''stats'',
                                       JObj
                                         [(js ''pageCount'', JNum (numpages pdfData)),
                                          (js ''textLength'',
                                             JNum (int (length extractedText)))])])
                                200,
                              called
                              @ [ConsoleLog
                                   [LogText (js ''OpenAI response:''),
                                    LogStringified (object result)]])))))"

section \<open>Notions of the specification\<close>

text \<open>
  Two code units are the same ignoring case when they are equal or are the upper-case
  and lower-case form of one ASCII letter.
\<close>

definition sameIgnoringCase :: "code_unit \<Rightarrow> code_unit \<Rightarrow> bool" where
  "sameIgnoringCase a b \<longleftrightarrow>
     a = b
     \<or> (0x41 \<le> a \<and> a \<le> 0x5A \<and> b = a + 0x20)
     \<or> (0x41 \<le> b \<and> b \<le> 0x5A \<and> a = b + 0x20)"

text \<open>\<open>s\<close> ends in \<open>t\<close> under case-insensitive comparison.\<close>

definition endsWithIgnoringCase :: "js_string \<Rightarrow> js_string \<Rightarrow> bool" where
  "endsWithIgnoringCase s t \<longleftrightarrow>
     length t \<le> length s
     \<and> list_all2 sameIgnoringCase (drop (length s - length t) s) t"

text \<open>
  The description of a failure: the message of an \<open>Error\<close>, and the text of any other
  thrown value.
\<close>

definition description :: "thrown \<Rightarrow> js_string" where
  "description err = (case err of ErrorInstance m \<Rightarrow> m | NonError d \<Rightarrow> d)"

section \<open>Example requests\<close>

text \<open>An upload of a four-byte file under a given name (or with no name).\<close>

definition sampleFile :: "js_string option \<Rightarrow> js_file" where
  "sampleFile n = \<lparr>name = n, arrayBuffer = [0x25, 0x50, 0x44, 0x46]\<rparr>"

definition upload :: "js_string option \<Rightarrow> hono_context" where
  "upload n = \<lparr>parseBody = Inr [js ''file'' \<mapsto> FormFile (sampleFile n)]\<rparr>"

text \<open>Collaborators with fixed outcomes.\<close>

definition collaboratorsReturning ::
  "thrown + pdf_data \<Rightarrow> thrown + gen_result \<Rightarrow> collaborators" where
  "collaboratorsReturning p g = \<lparr>pdf = (\<lambda>_. p), generateObject = (\<lambda>_. g)\<rparr>"

definition sampleMetadata :: json where
  "sampleMetadata =
     JObj
       [(js ''title'', JStr (js ''Acme AI policy'')),
        (js ''author'', JNull),
        (js ''summary'', JStr (js ''Rules for the use of AI tools at Acme.'')),
        (js ''topics'', JArr [JStr (js ''policy''), JStr (js ''AI'')]),
        (js ''keywords'', JArr [JStr (js ''governance'')]),
        (js ''documentType'', JStr (js ''report''))]"

section \<open>The string built-ins\<close>

lemma trim_Nil_iff: "trim s = [] \<longleftrightarrow> list_all isWhiteSpace s"
proof
  assume "trim s = []"
  then have rest: "\<forall>x \<in> set (dropWhile isWhiteSpace s). isWhiteSpace x"
    by (simp add: trim_def)
  have "dropWhile isWhiteSpace s = []"
  proof (rule ccontr)
    assume ne: "dropWhile isWhiteSpace s \<noteq> []"
    then have "\<not> isWhiteSpace (hd (dropWhile isWhiteSpace s))"
      by (rule hd_dropWhile)
    moreover have "hd (dropWhile isWhiteSpace s) \<in> set (dropWhile isWhiteSpace s)"
      using ne by simp
    ultimately show False using rest by blast
  qed
  then show "list_all isWhiteSpace s"
    by (simp add: list_all_iff)
next
  assume "list_all isWhiteSpace s"
  then have d: "dropWhile isWhiteSpace s = []"
    by (simp add: list_all_iff)
  show "trim s = []" unfolding trim_def d by simp
qed

lemma blank_iff: "t = [] \<or> length (trim t) = 0 \<longleftrightarrow> list_all isWhiteSpace t"
  using trim_Nil_iff [of t] by auto

lemma slice_from_start: "0 \<le> n \<Longrightarrow> slice s 0 n = take (nat n) s"
  by (auto simp: slice_def Let_def min_def)

lemma slice_15000: "slice s 0 15000 = (if length s \<le> 15000 then s else take 15000 s)"
  by (simp add: slice_from_start)

lemma lower_unit_eq_iff: "lower_unit a = lower_unit b \<longleftrightarrow> sameIgnoringCase a b"
  unfolding lower_unit_def sameIgnoringCase_def
  by (auto; unat_arith)

lemma toLowerCase_pdf: "toLowerCase (js ''.pdf'') = js ''.pdf''"
  by (simp add: toLowerCase_def js_def lower_unit_def)

lemma endsWith_toLowerCase:
  "endsWith (toLowerCase s) (toLowerCase t) \<longleftrightarrow> endsWithIgnoringCase s t"
proof -
  have "map lower_unit xs = map lower_unit t \<longleftrightarrow> list_all2 sameIgnoringCase xs t" for xs
    by (simp add: list_all2_eq [of "map lower_unit xs"] list_all2_map1 list_all2_map2
        lower_unit_eq_iff)
  then show ?thesis
    by (simp add: endsWith_def endsWithIgnoringCase_def toLowerCase_def drop_map)
qed

lemma endsWith_pdf:
  "endsWith (toLowerCase n) (js ''.pdf'') \<longleftrightarrow> endsWithIgnoringCase n (js ''.pdf'')"
  using endsWith_toLowerCase [of n "js ''.pdf''"] by (simp only: toLowerCase_pdf)

section \<open>The stages of the handler\<close>

text \<open>What the handler does once the upload has passed the presence and type checks.\<close>

lemma post_extract_pdf_file:
  assumes "parseBody c = Inr form" and "form (js ''file'') = Some (FormFile f)"
    and "name f = Some n" and "endsWithIgnoringCase n (js ''.pdf'')"
  shows "post_extract env c =
     (case pdf env (arrayBuffer f) of
        Inl err \<Rightarrow> catchBlock err [PdfCalled (arrayBuffer f)]
      | Inr d \<Rightarrow>
          if list_all isWhiteSpace (pdfText d)
          then (c_json (JObj [(js ''error'', JStr noTextMessage)]) 422,
                [PdfCalled (arrayBuffer f)])
          else
            (case generateObject env (requestFor (pdfText d)) of
               Inl err \<Rightarrow>
                 catchBlock err
                   [PdfCalled (arrayBuffer f),
                    ConsoleLog [LogText (js ''Calling OpenAI...'')],
                    GenerateObjectCalled (requestFor (pdfText d))]
             | Inr r \<Rightarrow>
                 (c_json
                    (JObj
                       [(js ''success'', JBool True),
                        (js ''metadata'', object r),
                        (js ''rawText'', JStr (pdfText d)),
                        (js ''stats'',
                           JObj
                             [(js ''pageCount'', JNum (numpages d)),
                              (js ''textLength'', JNum (int (length (pdfText d))))])])
                    200,
                  [PdfCalled (arrayBuffer f),
                   ConsoleLog [LogText (js ''Calling OpenAI...'')],
                   GenerateObjectCalled (requestFor (pdfText d)),
                   ConsoleLog
                     [LogText (js ''OpenAI response:''), LogStringified (object r)]])))"
proof -
  have chk: "endsWith (toLowerCase n) (js ''.pdf'')"
    using assms(4) by (simp only: endsWith_pdf)
  show ?thesis
    unfolding post_extract_def Let_def blank_iff
    using assms(1-3) chk
    by (simp split: sum.splits)
qed

text \<open>A response with status 200 comes from a run in which every stage succeeded.\<close>

lemma post_extract_200:
  assumes "status (fst (post_extract env c)) = 200"
  shows "\<exists>form f n d r.
           parseBody c = Inr form \<and> form (js ''file'') = Some (FormFile f)
           \<and> name f = Some n \<and> endsWithIgnoringCase n (js ''.pdf'')
           \<and> pdf env (arrayBuffer f) = Inr d \<and> \<not> list_all isWhiteSpace (pdfText d)
           \<and> generateObject env (requestFor (pdfText d)) = Inr r
           \<and> fst (post_extract env c) =
               c_json
                 (JObj
                    [(js ''success'', JBool True),
                     (js ''metadata'', object r),
                     (js ''rawText'', JStr (pdfText d)),
                     (js ''stats'',
                        JObj
                          [(js ''pageCount'', JNum (numpages d)),
                           (js ''textLength'', JNum (int (length (pdfText d))))])])
                 200"
  using assms
  unfolding post_extract_def Let_def blank_iff catchBlock_def c_json_def
  by (auto simp: endsWith_pdf split: sum.splits option.splits form_value.splits if_splits)


lemma parseBody_upload:
  "parseBody (upload n) = Inr [js ''file'' \<mapsto> FormFile (sampleFile n)]"
  by (simp add: upload_def)

lemma name_sampleFile: "name (sampleFile n) = n"
  by (simp add: sampleFile_def)

lemma arrayBuffer_sampleFile: "arrayBuffer (sampleFile n) = [0x25, 0x50, 0x44, 0x46]"
  by (simp add: sampleFile_def)

lemma pdf_collaboratorsReturning: "pdf (collaboratorsReturning p g) b = p"
  by (simp add: collaboratorsReturning_def)

lemma generateObject_collaboratorsReturning: "generateObject (collaboratorsReturning p g) q = g"
  by (simp add: collaboratorsReturning_def)

lemma report_pdf: "endsWithIgnoringCase (js ''report.pdf'') (js ''.pdf'')"
  by (simp add: endsWithIgnoringCase_def sameIgnoringCase_def js_def)

lemma field_upload:
  "[js ''file'' \<mapsto> FormFile (sampleFile n)] (js ''file'') = Some (FormFile (sampleFile n))"
  by simp

lemma not_blank_replicate: "0 < k \<Longrightarrow> \<not> list_all isWhiteSpace (replicate k 0x61)"
  by (simp add: list_all_iff isWhiteSpace_def)

text \<open>What the schema guarantees about the \<open>documentType\<close> of a validated object.\<close>

lemma validates_documentType:
  assumes "validates documentMetadataSchema v"
  shows "\<exists>t. getProperty v (js ''documentType'') = Some (JStr t) \<and> t \<in> set documentTypes"
  using assms
  by (cases v)
    (auto simp: documentMetadataSchema_def getProperty_def split: option.splits json.splits)

lemma validates_sampleMetadata: "validates documentMetadataSchema sampleMetadata"
  by (simp add: documentMetadataSchema_def sampleMetadata_def documentTypes_def js_def)

text \<open>The request of the \<open>generateObject\<close> call, written out.\<close>

lemma requestFor_literal:
  "requestFor t
   = \<lparr>model = js ''gpt-5-mini-2025-08-07'',
      schema = documentMetadataSchema,
      prompt =
        js ''Analyze the following document text and extract metadata.''
        @ [0x0A, 0x0A] @ js ''Document text:'' @ [0x0A] @ js ''---'' @ [0x0A]
        @ (if length t \<le> 15000 then t else take 15000 t)
        @ [0x0A] @ js ''---''\<rparr>"
  by (simp add: requestFor_def promptFor_def slice_15000)

section \<open>Properties\<close>

text \<open>
  C1, as the handler has it. When the multipart body of the request parses and has no
  \<open>file\<close> field, or the field is a plain string, the handler answers 400 with the
  missing-file message and calls neither the text extractor nor the metadata
  generator: it has no effect at all.
\<close>

theorem post_extract_missing_file:
  assumes "parseBody c = Inr form"
    and "form (js ''file'') = None \<or> (\<exists>s. form (js ''file'') = Some (FormString s))"
  shows "post_extract env c = (c_json (JObj [(js ''error'', JStr missingFileMessage)]) 400, [])"
  using assms by (auto simp: post_extract_def)

theorem post_extract_missing_file_witness:
  "post_extract (collaboratorsReturning (Inl (NonError [])) (Inl (NonError [])))
     \<lparr>parseBody = Inr Map.empty\<rparr>
   = (c_json (JObj [(js ''error'', JStr missingFileMessage)]) 400, [])
   \<and> post_extract (collaboratorsReturning (Inl (NonError [])) (Inl (NonError [])))
       \<lparr>parseBody = Inr [js ''file'' \<mapsto> FormString (js ''report.pdf'')]\<rparr>
     = (c_json (JObj [(js ''error'', JStr missingFileMessage)]) 400, [])"
proof -
  have absent: "parseBody \<lparr>parseBody = Inr (Map.empty :: form_data)\<rparr> = Inr Map.empty"
    by simp
  have plain:
    "parseBody \<lparr>parseBody = Inr [js ''file'' \<mapsto> FormString (js ''report.pdf'')]\<rparr>
     = Inr [js ''file'' \<mapsto> FormString (js ''report.pdf'')]"
    by simp
  show ?thesis
    using post_extract_missing_file [OF absent] post_extract_missing_file [OF plain]
    by simp
qed

text \<open>
  The statement of C1 as the specification has it fails for a request whose body
  cannot be parsed. Such a request carries no \<open>file\<close> field, but \<open>c.req.parseBody()\<close>
  rejects inside the \<open>try\<close> block, and the \<open>catch\<close> block answers 500, not 400 with the
  missing-file message.
\<close>

theorem post_extract_unparsable_body_counterexample:
  "post_extract
     (collaboratorsReturning (Inr \<lparr>pdfText = js ''Hello'', numpages = 1\<rparr>)
        (Inr \<lparr>object = sampleMetadata\<rparr>))
     \<lparr>parseBody = Inl (ErrorInstance (js ''Malformed multipart body''))\<rparr>
   = (c_json
        (JObj
           [(js ''error'', JStr (js ''Failed to process PDF: Malformed multipart body''))])
        500,
      [ConsoleError
         [LogText (js ''Error processing PDF:''),
          LogThrown (ErrorInstance (js ''Malformed multipart body''))]])
   \<and> fst (post_extract
        (collaboratorsReturning (Inr \<lparr>pdfText = js ''Hello'', numpages = 1\<rparr>)
           (Inr \<lparr>object = sampleMetadata\<rparr>))
        \<lparr>parseBody = Inl (ErrorInstance (js ''Malformed multipart body''))\<rparr>)
     \<noteq> c_json (JObj [(js ''error'', JStr missingFileMessage)]) 400"
proof -
  have joined:
    "js ''Failed to process PDF: '' @ js ''Malformed multipart body''
       = js ''Failed to process PDF: Malformed multipart body''"
    by (simp add: js_def)
  show ?thesis
    by (simp add: post_extract_def catchBlock_def c_json_def joined)
qed

text \<open>
  C2. When the upload carries a file whose name does not end in \<open>.pdf\<close> under
  case-insensitive comparison, the handler answers 400 with the unsupported-type
  message and has no effect: the text extractor has not been called. The answer is the
  same for every content of the file and every behaviour of the collaborators, so the
  decision rests on the file name alone.
\<close>

theorem post_extract_unsupported_type:
  assumes "parseBody c = Inr form" and "form (js ''file'') = Some (FormFile f)"
    and "name f = Some n" and "\<not> endsWithIgnoringCase n (js ''.pdf'')"
  shows "post_extract env c
         = (c_json (JObj [(js ''error'', JStr unsupportedTypeMessage)]) 400, [])"
proof -
  have "\<not> endsWith (toLowerCase n) (js ''.pdf'')"
    using assms(4) by (simp add: endsWith_pdf)
  then show ?thesis
    using assms(1-3) by (simp add: post_extract_def)
qed

theorem post_extract_unsupported_type_witness:
  "\<not> endsWithIgnoringCase (js ''notes.txt'') (js ''.pdf'')
   \<and> post_extract (collaboratorsReturning (Inl (NonError [])) (Inl (NonError [])))
       (upload (Some (js ''notes.txt'')))
     = (c_json (JObj [(js ''error'', JStr unsupportedTypeMessage)]) 400, [])"
proof -
  have field: "[js ''file'' \<mapsto> FormFile (sampleFile (Some (js ''notes.txt'')))] (js ''file'')
               = Some (FormFile (sampleFile (Some (js ''notes.txt''))))"
    by simp
  have ext: "\<not> endsWithIgnoringCase (js ''notes.txt'') (js ''.pdf'')"
    by (simp add: endsWithIgnoringCase_def sameIgnoringCase_def js_def)
  show ?thesis
    using ext post_extract_unsupported_type [OF parseBody_upload field name_sampleFile ext]
    by simp
qed

text \<open>
  C3. When the upload has passed the presence and type checks and the text extractor
  returns a text that is empty or consists of white space only, the handler answers 422
  with the no-text message; its only effect is the one call of the text extractor, so the
  metadata generator is never called.
\<close>

theorem post_extract_no_text:
  assumes "parseBody c = Inr form" and "form (js ''file'') = Some (FormFile f)"
    and "name f = Some n" and "endsWithIgnoringCase n (js ''.pdf'')"
    and "pdf env (arrayBuffer f) = Inr d" and "list_all isWhiteSpace (pdfText d)"
  shows "post_extract env c
         = (c_json (JObj [(js ''error'', JStr noTextMessage)]) 422,
            [PdfCalled (arrayBuffer f)])"
  using assms(5,6) by (simp add: post_extract_pdf_file [OF assms(1-4)])

theorem post_extract_no_text_witness:
  "list_all isWhiteSpace [0x20, 0x0A, 0x09, 0x3000]
   \<and> post_extract
       (collaboratorsReturning (Inr \<lparr>pdfText = [0x20, 0x0A, 0x09, 0x3000], numpages = 3\<rparr>)
          (Inr \<lparr>object = sampleMetadata\<rparr>))
       (upload (Some (js ''scan.pdf'')))
     = (c_json (JObj [(js ''error'', JStr noTextMessage)]) 422,
        [PdfCalled [0x25, 0x50, 0x44, 0x46]])"
proof -
  have field: "[js ''file'' \<mapsto> FormFile (sampleFile (Some (js ''scan.pdf'')))] (js ''file'')
               = Some (FormFile (sampleFile (Some (js ''scan.pdf''))))"
    by simp
  have ext: "endsWithIgnoringCase (js ''scan.pdf'') (js ''.pdf'')"
    by (simp add: endsWithIgnoringCase_def sameIgnoringCase_def js_def)
  have blank: "list_all isWhiteSpace [0x20, 0x0A, 0x09, 0x3000]"
    by (simp add: isWhiteSpace_def)
  have blank':
    "list_all isWhiteSpace (pdfText \<lparr>pdfText = [0x20, 0x0A, 0x09, 0x3000], numpages = 3\<rparr>)"
    using blank by simp
  show ?thesis
    using blank
      post_extract_no_text
        [OF parseBody_upload field name_sampleFile ext pdf_collaboratorsReturning blank']
    by (simp add: arrayBuffer_sampleFile)
qed

text \<open>
  C10. When the upload carries a file that has no \<open>name\<close> property, the handler does
  not fail: it answers 400 with the unsupported-type message, as it does for a name
  that does not end in \<open>.pdf\<close>, and has no effect.
\<close>

theorem post_extract_no_name:
  assumes "parseBody c = Inr form" and "form (js ''file'') = Some (FormFile f)"
    and "name f = None"
  shows "post_extract env c
         = (c_json (JObj [(js ''error'', JStr unsupportedTypeMessage)]) 400, [])"
  using assms by (simp add: post_extract_def)

theorem post_extract_no_name_witness:
  "post_extract (collaboratorsReturning (Inl (NonError [])) (Inl (NonError []))) (upload None)
   = (c_json (JObj [(js ''error'', JStr unsupportedTypeMessage)]) 400, [])"
proof -
  have field: "[js ''file'' \<mapsto> FormFile (sampleFile None)] (js ''file'')
               = Some (FormFile (sampleFile None))"
    by simp
  show ?thesis
    using post_extract_no_name [OF parseBody_upload field name_sampleFile]
    by simp
qed

text \<open>
  C4. For an upload that has passed the checks and an extracted text that is not blank,
  the metadata generator is called, whatever it then answers, with the prompt made of
  the handler's fixed header, the extracted text and the fixed footer: the whole
  extracted text when that has at most 15000 code units, and exactly its first 15000
  code units when it is longer. When the generator answers, the body of the response
  is the four-field envelope, with no field for a warning, and its \<open>rawText\<close> is the
  whole extracted text.
\<close>

theorem post_extract_prompt_text:
  assumes "parseBody c = Inr form" and "form (js ''file'') = Some (FormFile f)"
    and "name f = Some n" and "endsWithIgnoringCase n (js ''.pdf'')"
    and "pdf env (arrayBuffer f) = Inr d" and "\<not> list_all isWhiteSpace (pdfText d)"
  shows "(\<exists>after.
          snd (post_extract env c)
          = [PdfCalled (arrayBuffer f),
             ConsoleLog [LogText (js ''Calling OpenAI...'')],
             GenerateObjectCalled
               \<lparr>model = js ''gpt-5-mini-2025-08-07'',
                schema = documentMetadataSchema,
                prompt =
                  js ''Analyze the following document text and extract metadata.''
                  @ [0x0A, 0x0A] @ js ''Document text:'' @ [0x0A] @ js ''---'' @ [0x0A]
                  @ (if length (pdfText d) \<le> 15000 then pdfText d
                     else take 15000 (pdfText d))
                  @ [0x0A] @ js ''---''\<rparr>] @ after)
     \<and> (\<forall>r. generateObject env
               \<lparr>model = js ''gpt-5-mini-2025-08-07'',
                schema = documentMetadataSchema,
                prompt =
                  js ''Analyze the following document text and extract metadata.''
                  @ [0x0A, 0x0A] @ js ''Document text:'' @ [0x0A] @ js ''---'' @ [0x0A]
                  @ (if length (pdfText d) \<le> 15000 then pdfText d
                     else take 15000 (pdfText d))
                  @ [0x0A] @ js ''---''\<rparr> = Inr r \<longrightarrow>
            body (fst (post_extract env c))
            = JObj
                [(js ''success'', JBool True),
                 (js ''metadata'', object r),
                 (js ''rawText'', JStr (pdfText d)),
                 (js ''stats'',
                    JObj
                      [(js ''pageCount'', JNum (numpages d)),
                       (js ''textLength'', JNum (int (length (pdfText d))))])])"
proof -
  have "\<exists>after.
      snd (post_extract env c)
      = [PdfCalled (arrayBuffer f),
         ConsoleLog [LogText (js ''Calling OpenAI...'')],
         GenerateObjectCalled (requestFor (pdfText d))] @ after"
    using assms(5,6)
    by (simp add: post_extract_pdf_file [OF assms(1-4)] catchBlock_def split: sum.splits)
  moreover have "\<forall>r. generateObject env (requestFor (pdfText d)) = Inr r \<longrightarrow>
      body (fst (post_extract env c))
      = JObj
          [(js ''success'', JBool True),
           (js ''metadata'', object r),
           (js ''rawText'', JStr (pdfText d)),
           (js ''stats'',
              JObj
                [(js ''pageCount'', JNum (numpages d)),
                 (js ''textLength'', JNum (int (length (pdfText d))))])]"
    using assms(5,6)
    by (simp add: post_extract_pdf_file [OF assms(1-4)] c_json_def)
  ultimately show ?thesis
    unfolding requestFor_literal by (rule conjI)
qed

theorem post_extract_prompt_text_witness:
  "(\<exists>after.
      snd (post_extract
        (collaboratorsReturning (Inr \<lparr>pdfText = replicate 15001 0x61, numpages = 7\<rparr>)
           (Inr \<lparr>object = sampleMetadata\<rparr>))
        (upload (Some (js ''report.pdf''))))
      = [PdfCalled [0x25, 0x50, 0x44, 0x46],
         ConsoleLog [LogText (js ''Calling OpenAI...'')],
         GenerateObjectCalled
           \<lparr>model = js ''gpt-5-mini-2025-08-07'',
            schema = documentMetadataSchema,
            prompt =
              js ''Analyze the following document text and extract metadata.''
              @ [0x0A, 0x0A] @ js ''Document text:'' @ [0x0A] @ js ''---'' @ [0x0A]
              @ replicate 15000 0x61
              @ [0x0A] @ js ''---''\<rparr>] @ after)
   \<and> body
        (fst (post_extract
           (collaboratorsReturning (Inr \<lparr>pdfText = replicate 15001 0x61, numpages = 7\<rparr>)
              (Inr \<lparr>object = sampleMetadata\<rparr>))
           (upload (Some (js ''report.pdf'')))))
     = JObj
         [(js ''success'', JBool True),
          (js ''metadata'', sampleMetadata),
          (js ''rawText'', JStr (replicate 15001 0x61)),
          (js ''stats'',
             JObj [(js ''pageCount'', JNum 7), (js ''textLength'', JNum 15001)])]"
proof -
  have filled:
    "\<not> list_all isWhiteSpace (pdfText \<lparr>pdfText = replicate 15001 0x61, numpages = 7\<rparr>)"
    using not_blank_replicate [of 15001] by simp
  show ?thesis
    using post_extract_prompt_text
      [OF parseBody_upload field_upload name_sampleFile report_pdf
        pdf_collaboratorsReturning filled,
       of "Inr \<lparr>object = sampleMetadata\<rparr>"]
    by (simp add: generateObject_collaboratorsReturning arrayBuffer_sampleFile)
qed

text \<open>
  C5. Every response with status 200 is the envelope of a run in which the text
  extractor, called on the uploaded file, returned a text and a page count and the
  metadata generator returned an object: \<open>success\<close> is true, \<open>metadata\<close> is the generator's object, \<open>rawText\<close> is
  the whole extracted text, \<open>stats.pageCount\<close> is the extractor's page count and
  \<open>stats.textLength\<close> is the length of \<open>rawText\<close>, whatever that length is.
\<close>

theorem post_extract_envelope:
  assumes "status (fst (post_extract env c)) = 200"
  shows "\<exists>form f d r.
           parseBody c = Inr form \<and> form (js ''file'') = Some (FormFile f)
           \<and> pdf env (arrayBuffer f) = Inr d
           \<and> generateObject env (requestFor (pdfText d)) = Inr r
           \<and> fst (post_extract env c) =
               c_json
                 (JObj
                    [(js ''success'', JBool True),
                     (js ''metadata'', object r),
                     (js ''rawText'', JStr (pdfText d)),
                     (js ''stats'',
                        JObj
                          [(js ''pageCount'', JNum (numpages d)),
                           (js ''textLength'', JNum (int (length (pdfText d))))])])
                 200"
  using post_extract_200 [OF assms]
  by (elim exE conjE) (intro exI conjI, assumption+)

theorem post_extract_envelope_witness:
  "status
     (fst (post_extract
        (collaboratorsReturning (Inr \<lparr>pdfText = replicate 12345 0x61, numpages = 5\<rparr>)
           (Inr \<lparr>object = sampleMetadata\<rparr>))
        (upload (Some (js ''report.pdf''))))) = 200
   \<and> fst (post_extract
        (collaboratorsReturning (Inr \<lparr>pdfText = replicate 12345 0x61, numpages = 5\<rparr>)
           (Inr \<lparr>object = sampleMetadata\<rparr>))
        (upload (Some (js ''report.pdf''))))
     = c_json
         (JObj
            [(js ''success'', JBool True),
             (js ''metadata'', sampleMetadata),
             (js ''rawText'', JStr (replicate 12345 0x61)),
             (js ''stats'',
                JObj [(js ''pageCount'', JNum 5), (js ''textLength'', JNum 12345)])])
         200"
proof -
  let ?env =
    "collaboratorsReturning (Inr \<lparr>pdfText = replicate 12345 0x61, numpages = 5\<rparr>)
       (Inr \<lparr>object = sampleMetadata\<rparr>)"
  let ?c = "upload (Some (js ''report.pdf''))"
  have ok: "status (fst (post_extract ?env ?c)) = 200"
    using not_blank_replicate [of 12345]
    by (simp add: post_extract_pdf_file
          [OF parseBody_upload field_upload name_sampleFile report_pdf]
        pdf_collaboratorsReturning generateObject_collaboratorsReturning c_json_def)
  show ?thesis
    using ok post_extract_envelope [OF ok]
    by (auto simp: pdf_collaboratorsReturning generateObject_collaboratorsReturning)
qed

text \<open>
  C6, as the handler has it. When the upload has passed the checks and the text
  extractor throws, or the extracted text is not blank and the metadata generator
  throws, the handler answers 500 with an error object whose message is
  \<open>Failed to process PDF: \<close> followed by the message of the thrown value when that is an
  instance of \<open>Error\<close>, and by \<open>Unknown error occurred\<close> when it is not. The effects
  are the calls made up to the throw, each collaborator at most once, and one write to
  the error console: nothing is retried, and the handler returns a response instead of
  passing the failure on.
\<close>

theorem post_extract_collaborator_throws:
  assumes "parseBody c = Inr form" and "form (js ''file'') = Some (FormFile f)"
    and "name f = Some n" and "endsWithIgnoringCase n (js ''.pdf'')"
    and "pdf env (arrayBuffer f) = Inl err \<and> before = [PdfCalled (arrayBuffer f)]
         \<or> (\<exists>d. pdf env (arrayBuffer f) = Inr d \<and> \<not> list_all isWhiteSpace (pdfText d)
               \<and> generateObject env (requestFor (pdfText d)) = Inl err
               \<and> before
                   = [PdfCalled (arrayBuffer f),
                      ConsoleLog [LogText (js ''Calling OpenAI...'')],
                      GenerateObjectCalled (requestFor (pdfText d))])"
  shows "post_extract env c
         = (c_json
              (JObj
                 [(js ''error'',
                   JStr
                     (js ''Failed to process PDF: ''
                      @ (case err of
                           ErrorInstance m \<Rightarrow> m
                         | NonError d \<Rightarrow> js ''Unknown error occurred'')))])
              500,
            before @ [ConsoleError [LogText (js ''Error processing PDF:''), LogThrown err]])"
  using assms(5)
  by (auto simp: post_extract_pdf_file [OF assms(1-4)] catchBlock_def)

theorem post_extract_collaborator_throws_witness:
  "post_extract
     (collaboratorsReturning (Inl (ErrorInstance (js ''Invalid PDF structure'')))
        (Inr \<lparr>object = sampleMetadata\<rparr>))
     (upload (Some (js ''report.pdf'')))
   = (c_json
        (JObj [(js ''error'', JStr (js ''Failed to process PDF: Invalid PDF structure''))])
        500,
      [PdfCalled [0x25, 0x50, 0x44, 0x46],
       ConsoleError
         [LogText (js ''Error processing PDF:''),
          LogThrown (ErrorInstance (js ''Invalid PDF structure''))]])
   \<and> post_extract
       (collaboratorsReturning (Inr \<lparr>pdfText = js ''Hello'', numpages = 1\<rparr>)
          (Inl (ErrorInstance (js ''quota exceeded''))))
       (upload (Some (js ''report.pdf'')))
     = (c_json
          (JObj [(js ''error'', JStr (js ''Failed to process PDF: quota exceeded''))])
          500,
        [PdfCalled [0x25, 0x50, 0x44, 0x46],
         ConsoleLog [LogText (js ''Calling OpenAI...'')],
         GenerateObjectCalled (requestFor (js ''Hello'')),
         ConsoleError
           [LogText (js ''Error processing PDF:''),
            LogThrown (ErrorInstance (js ''quota exceeded''))]])"
proof -
  let ?extractor_fails =
    "collaboratorsReturning (Inl (ErrorInstance (js ''Invalid PDF structure'')))
       (Inr \<lparr>object = sampleMetadata\<rparr>)"
  let ?generator_fails =
    "collaboratorsReturning (Inr \<lparr>pdfText = js ''Hello'', numpages = 1\<rparr>)
       (Inl (ErrorInstance (js ''quota exceeded'')))"
  let ?f = "sampleFile (Some (js ''report.pdf''))"
  have first:
    "pdf ?extractor_fails (arrayBuffer ?f) = Inl (ErrorInstance (js ''Invalid PDF structure''))
       \<and> [PdfCalled [0x25, 0x50, 0x44, 0x46]] = [PdfCalled (arrayBuffer ?f)]
     \<or> (\<exists>d. pdf ?extractor_fails (arrayBuffer ?f) = Inr d
           \<and> \<not> list_all isWhiteSpace (pdfText d)
           \<and> generateObject ?extractor_fails (requestFor (pdfText d))
               = Inl (ErrorInstance (js ''Invalid PDF structure''))
           \<and> [PdfCalled [0x25, 0x50, 0x44, 0x46]]
               = [PdfCalled (arrayBuffer ?f),
                  ConsoleLog [LogText (js ''Calling OpenAI...'')],
                  GenerateObjectCalled (requestFor (pdfText d))])"
    by (simp add: pdf_collaboratorsReturning arrayBuffer_sampleFile)
  have hello: "\<not> list_all isWhiteSpace (js ''Hello'')"
    by (simp add: js_def isWhiteSpace_def)
  have second:
    "pdf ?generator_fails (arrayBuffer ?f) = Inl (ErrorInstance (js ''quota exceeded''))
       \<and> [PdfCalled [0x25, 0x50, 0x44, 0x46],
            ConsoleLog [LogText (js ''Calling OpenAI...'')],
            GenerateObjectCalled (requestFor (js ''Hello''))]
           = [PdfCalled (arrayBuffer ?f)]
     \<or> (\<exists>d. pdf ?generator_fails (arrayBuffer ?f) = Inr d
           \<and> \<not> list_all isWhiteSpace (pdfText d)
           \<and> generateObject ?generator_fails (requestFor (pdfText d))
               = Inl (ErrorInstance (js ''quota exceeded''))
           \<and> [PdfCalled [0x25, 0x50, 0x44, 0x46],
                ConsoleLog [LogText (js ''Calling OpenAI...'')],
                GenerateObjectCalled (requestFor (js ''Hello''))]
               = [PdfCalled (arrayBuffer ?f),
                  ConsoleLog [LogText (js ''Calling OpenAI...'')],
                  GenerateObjectCalled (requestFor (pdfText d))])"
    using hello
    by (simp add: pdf_collaboratorsReturning generateObject_collaboratorsReturning
        arrayBuffer_sampleFile)
  have joined:
    "js ''Failed to process PDF: '' @ js ''Invalid PDF structure''
       = js ''Failed to process PDF: Invalid PDF structure''"
    "js ''Failed to process PDF: '' @ js ''quota exceeded''
       = js ''Failed to process PDF: quota exceeded''"
    by (simp_all add: js_def)
  show ?thesis
    using
      post_extract_collaborator_throws
        [OF parseBody_upload field_upload name_sampleFile report_pdf first]
      post_extract_collaborator_throws
        [OF parseBody_upload field_upload name_sampleFile report_pdf second]
    by (simp add: joined)
qed

text \<open>
  The statement of C6 as the specification has it fails when the thrown value is not an
  instance of \<open>Error\<close>: the text extractor throws the string \<open>boom\<close>, and the message of
  the response does not include it.
\<close>

theorem post_extract_thrown_value_counterexample:
  "pdf
     (collaboratorsReturning (Inl (NonError (js ''boom''))) (Inr \<lparr>object = sampleMetadata\<rparr>))
     (arrayBuffer (sampleFile (Some (js ''report.pdf''))))
   = Inl (NonError (js ''boom''))
   \<and> fst (post_extract
        (collaboratorsReturning (Inl (NonError (js ''boom''))) (Inr \<lparr>object = sampleMetadata\<rparr>))
        (upload (Some (js ''report.pdf''))))
     = c_json
         (JObj [(js ''error'', JStr (js ''Failed to process PDF: Unknown error occurred''))])
         500
   \<and> \<not> js_includes (js ''Failed to process PDF: Unknown error occurred'')
         (description (NonError (js ''boom'')))"
proof -
  have joined:
    "js ''Failed to process PDF: '' @ js ''Unknown error occurred''
       = js ''Failed to process PDF: Unknown error occurred''"
    by (simp add: js_def)
  have "\<not> js_includes (js ''Failed to process PDF: Unknown error occurred'') (js ''boom'')"
    by (simp add: js_def)
  then show ?thesis
    by (simp add: post_extract_pdf_file
          [OF parseBody_upload field_upload name_sampleFile report_pdf]
        pdf_collaboratorsReturning catchBlock_def description_def joined)
qed



text \<open>
  C8. When the metadata generator returns only objects that the schema it was given
  accepts, the \<open>metadata\<close> of every response with status 200 has a \<open>documentType\<close>
  that is one of the ten strings of the schema.
\<close>

theorem post_extract_documentType:
  assumes "status (fst (post_extract env c)) = 200"
    and "\<And>q r. generateObject env q = Inr r \<Longrightarrow> schema q = documentMetadataSchema
           \<Longrightarrow> validates (schema q) (object r)"
  shows "\<exists>meta t.
           getProperty (body (fst (post_extract env c))) (js ''metadata'') = Some meta
           \<and> getProperty meta (js ''documentType'') = Some (JStr t)
           \<and> t \<in> {js ''report'', js ''article'', js ''letter'', js ''contract'',
                   js ''manual'', js ''presentation'', js ''academic_paper'',
                   js ''invoice'', js ''resume'', js ''other''}"
proof -
  from post_extract_200 [OF assms(1)] obtain d :: pdf_data and r :: gen_result where
    gen: "generateObject env (requestFor (pdfText d)) = Inr r"
    and resp: "fst (post_extract env c) =
      c_json
        (JObj
           [(js ''success'', JBool True),
            (js ''metadata'', object r),
            (js ''rawText'', JStr (pdfText d)),
            (js ''stats'',
               JObj
                 [(js ''pageCount'', JNum (numpages d)),
                  (js ''textLength'', JNum (int (length (pdfText d))))])])
        200"
    by blast
  have "validates documentMetadataSchema (object r)"
    using assms(2) [OF gen] by (simp add: requestFor_def)
  then obtain t where
    t: "getProperty (object r) (js ''documentType'') = Some (JStr t)" "t \<in> set documentTypes"
    using validates_documentType by blast
  have "getProperty (body (fst (post_extract env c))) (js ''metadata'') = Some (object r)"
    by (simp add: resp c_json_def getProperty_def js_def)
  with t show ?thesis
    by (simp add: documentTypes_def)
qed

theorem post_extract_documentType_witness:
  "status
     (fst (post_extract
        (collaboratorsReturning (Inr \<lparr>pdfText = js ''Hello'', numpages = 1\<rparr>)
           (Inr \<lparr>object = sampleMetadata\<rparr>))
        (upload (Some (js ''report.pdf''))))) = 200
   \<and> (\<exists>meta t.
        getProperty
          (body
             (fst (post_extract
                (collaboratorsReturning (Inr \<lparr>pdfText = js ''Hello'', numpages = 1\<rparr>)
                   (Inr \<lparr>object = sampleMetadata\<rparr>))
                (upload (Some (js ''report.pdf''))))))
          (js ''metadata'') = Some meta
        \<and> getProperty meta (js ''documentType'') = Some (JStr t)
        \<and> t \<in> {js ''report'', js ''article'', js ''letter'', js ''contract'',
                js ''manual'', js ''presentation'', js ''academic_paper'',
                js ''invoice'', js ''resume'', js ''other''})"
proof -
  let ?env =
    "collaboratorsReturning (Inr \<lparr>pdfText = js ''Hello'', numpages = 1\<rparr>)
       (Inr \<lparr>object = sampleMetadata\<rparr>)"
  let ?c = "upload (Some (js ''report.pdf''))"
  have hello: "\<not> list_all isWhiteSpace (js ''Hello'')"
    by (simp add: js_def isWhiteSpace_def)
  have ok: "status (fst (post_extract ?env ?c)) = 200"
    using hello
    by (simp add: post_extract_pdf_file
          [OF parseBody_upload field_upload name_sampleFile report_pdf]
        pdf_collaboratorsReturning generateObject_collaboratorsReturning c_json_def)
  have valid: "validates (schema q) (object r)"
    if "generateObject ?env q = Inr r" and "schema q = documentMetadataSchema" for q r
    using that validates_sampleMetadata
    by (auto simp: generateObject_collaboratorsReturning)
  show ?thesis
    using ok post_extract_documentType [OF ok valid] by simp
qed

text \<open>
  C9. The handler of \<open>GET /\<close> reads nothing of the request and has no state to read: any
  two invocations return the same response, with status 200 and the status \<open>ok\<close>, and
  none has an effect.
\<close>

theorem get_health_constant:
  "get_health c1 = get_health c2
   \<and> snd (get_health c1) = []
   \<and> status (fst (get_health c1)) = 200
   \<and> getProperty (body (fst (get_health c1))) (js ''status'') = Some (JStr (js ''ok''))"
  by (simp add: get_health_def c_json_def getProperty_def)

end
